theory Spec2Isabelle
  imports Complex_Main "HOL-Library.Option_ord"
begin

section \<open>JavaScript values read by the probe\<close>

text \<open>
  The five strings that \<open>getPerformanceTier\<close> returns. The tier arguments of
  \<open>estimatePerformanceGain\<close> and \<open>getPerformanceDescription\<close> range over these values.
\<close>

datatype tier = High | Medium | Low | Unknown | Unavailable

text \<open>
  A device limit is an unsigned integer of the WebGPU interface, or \<open>undefined\<close> when the
  property is not there; \<open>None\<close> stands for \<open>undefined\<close> and for the \<open>NaN\<close> that arithmetic on
  \<open>undefined\<close> gives (both are falsy, and every comparison with them is false).
\<close>

type_synonym limit = "nat option"

definition truthy :: "limit \<Rightarrow> bool" where
  "truthy v = (case v of None \<Rightarrow> False | Some n \<Rightarrow> n \<noteq> 0)"

definition js_ge :: "limit \<Rightarrow> nat \<Rightarrow> bool" where
  "js_ge v k = (case v of None \<Rightarrow> False | Some n \<Rightarrow> k \<le> n)"

text \<open>\<open>Math.floor(v / k)\<close> for a positive constant \<open>k\<close>.\<close>

definition floor_div :: "limit \<Rightarrow> nat \<Rightarrow> limit" where
  "floor_div v k = (case v of None \<Rightarrow> None | Some n \<Rightarrow> Some (n div k))"

text \<open>\<open>v || d\<close> on a limit: the default replaces \<open>undefined\<close>, \<open>NaN\<close> and \<open>0\<close>.\<close>

definition or_default :: "limit \<Rightarrow> nat \<Rightarrow> nat" where
  "or_default v d = (case v of None \<Rightarrow> d | Some n \<Rightarrow> if n = 0 then d else n)"

text \<open>\<open>v || d\<close> on a looked-up number, and on a looked-up string.\<close>

definition or_number :: "rat option \<Rightarrow> rat \<Rightarrow> rat" where
  "or_number v d = (case v of None \<Rightarrow> d | Some x \<Rightarrow> if x = 0 then d else x)"

definition or_string :: "string option \<Rightarrow> string \<Rightarrow> string" where
  "or_string v d = (case v of None \<Rightarrow> d | Some s \<Rightarrow> if s = [] then d else s)"

section \<open>gpu-utils.js: gain estimate and description\<close>

text \<open>
  The object literal \<open>gains\<close> of \<open>estimatePerformanceGain\<close>, as the lookup \<open>gains[tier]\<close>.
  Numbers are rationals: on thread counts, which are integers far below \<open>2^51\<close>, the
  double arithmetic of the source is exact.
\<close>

definition gains :: "rat \<Rightarrow> tier \<Rightarrow> rat option" where
  "gains threadCount t =
     (case t of
        High \<Rightarrow> Some (20 + threadCount * 2)
      | Medium \<Rightarrow> Some (10 + threadCount)
      | Low \<Rightarrow> Some (4 + threadCount * (1 / 2))
      | Unavailable \<Rightarrow> Some 0
      | Unknown \<Rightarrow> None)"

text \<open>The second argument is optional in the source and defaults to \<open>4\<close>.\<close>

definition estimatePerformanceGain :: "tier \<Rightarrow> rat option \<Rightarrow> rat" where
  "estimatePerformanceGain performanceTier arg =
     (let threadCount = (case arg of None \<Rightarrow> 4 | Some n \<Rightarrow> n)
      in max 1 (or_number (gains threadCount performanceTier) 0))"

text \<open>
  The object literal \<open>descriptions\<close>, as the lookup \<open>descriptions[tier]\<close>; the constant is
  the string under its key \<open>unavailable\<close>. The gain is interpolated by a template literal,
  so the model takes the string that JavaScript's \<open>ToString\<close> gives for it.
\<close>

definition unavailable_description :: string where
  "unavailable_description = ''GPU acceleration not available. Using CPU-only mode.''"

definition descriptions :: "string \<Rightarrow> tier \<Rightarrow> string option" where
  "descriptions estimatedGain t =
     (case t of
        High \<Rightarrow>
          Some (''High-performance GPU detected. Estimated '' @ estimatedGain @
                ''x speedup over CPU.'')
      | Medium \<Rightarrow>
          Some (''Mid-range GPU detected. Estimated '' @ estimatedGain @
                ''x speedup over CPU.'')
      | Low \<Rightarrow>
          Some (''Low-end GPU detected. Estimated '' @ estimatedGain @
                ''x speedup over CPU.'')
      | Unavailable \<Rightarrow> Some unavailable_description
      | Unknown \<Rightarrow> None)"

text \<open>\<open>descriptions[performanceTier] || descriptions.unavailable\<close>.\<close>

definition getPerformanceDescription :: "tier \<Rightarrow> string \<Rightarrow> string" where
  "getPerformanceDescription performanceTier estimatedGain =
     or_string (descriptions estimatedGain performanceTier) unavailable_description"

section \<open>String operations of the user-agent check\<close>

fun starts_with :: "string \<Rightarrow> string \<Rightarrow> bool" where
  "starts_with s [] = True"
| "starts_with [] (p # ps) = False"
| "starts_with (c # cs) (p # ps) = (c = p \<and> starts_with cs ps)"

text \<open>\<open>s.includes(sub)\<close>: \<open>sub\<close> occurs at some position of \<open>s\<close>.\<close>

fun js_includes :: "string \<Rightarrow> string \<Rightarrow> bool" where
  "js_includes [] sub = (sub = [])"
| "js_includes (c # cs) sub = (starts_with (c # cs) sub \<or> js_includes cs sub)"

definition is_digit :: "char \<Rightarrow> bool" where
  "is_digit c = (c \<in> set ''0123456789'')"

definition digit_value :: "char \<Rightarrow> nat" where
  "digit_value c = of_char c - 48"

text \<open>\<open>parseInt\<close> of a non-empty string of decimal digits.\<close>

definition parseInt :: "string \<Rightarrow> nat" where
  "parseInt ds = foldl (\<lambda>a c. 10 * a + digit_value c) 0 ds"

text \<open>
  \<open>s.match(/P(\d+)/)\<close> for a literal prefix \<open>P\<close>: the leftmost position where \<open>P\<close> is followed
  by a digit; the capture group is the longest run of digits there. \<open>None\<close> is \<open>null\<close>.
\<close>

definition match_at :: "string \<Rightarrow> string \<Rightarrow> string option" where
  "match_at p s =
     (if starts_with s p
      then (let ds = takeWhile is_digit (drop (length p) s)
            in if ds = [] then None else Some ds)
      else None)"

fun match_digits :: "string \<Rightarrow> string \<Rightarrow> string option" where
  "match_digits p [] = match_at p []"
| "match_digits p (c # cs) =
     (case match_at p (c # cs) of Some ds \<Rightarrow> Some ds | None \<Rightarrow> match_digits p cs)"

text \<open>\<open>const version = match ? parseInt(match[1]) : 0\<close>.\<close>

definition parsed_version :: "string \<Rightarrow> string \<Rightarrow> nat" where
  "parsed_version p ua = (case match_digits p ua of Some ds \<Rightarrow> parseInt ds | None \<Rightarrow> 0)"

text \<open>
  The decimal string of a number, as a template literal interpolates it (exact for the
  versions below \<open>2^53\<close>).
\<close>

fun show_nat :: "nat \<Rightarrow> string" where
  "show_nat n =
     (if n < 10 then [''0123456789'' ! n]
      else show_nat (n div 10) @ [''0123456789'' ! (n mod 10)])"

declare show_nat.simps [simp del]

section \<open>webgpu-checker.js: the capability record and its environment\<close>

record gpu_limits =
  maxComputeWorkgroupStorageSize :: limit
  maxComputeInvocationsPerWorkgroup :: limit
  maxComputeWorkgroupSizeX :: limit
  maxComputeWorkgroupSizeY :: limit
  maxComputeWorkgroupSizeZ :: limit
  maxComputeWorkgroupsPerDimension :: limit
  maxStorageBufferBindingSize :: limit
  maxBufferSize :: limit
  maxUniformBufferBindingSize :: limit

text \<open>The empty object \<open>{}\<close>: every limit reads as \<open>undefined\<close>.\<close>

definition no_limits :: gpu_limits where
  "no_limits =
     \<lparr>maxComputeWorkgroupStorageSize = None, maxComputeInvocationsPerWorkgroup = None,
      maxComputeWorkgroupSizeX = None, maxComputeWorkgroupSizeY = None,
      maxComputeWorkgroupSizeZ = None, maxComputeWorkgroupsPerDimension = None,
      maxStorageBufferBindingSize = None, maxBufferSize = None,
      maxUniformBufferBindingSize = None\<rparr>"

text \<open>
  What an awaited request of the environment does: it throws an error with a message,
  resolves to \<open>null\<close>, or resolves to an object.
\<close>

datatype 'a outcome = Throws string | Null | Resolved 'a

text \<open>
  A device: its feature set, its limits, and whether \<open>createShaderModule\<close> or
  \<open>createComputePipeline\<close> throws on the test shader (\<open>Some\<close> of the error's message).
\<close>

record gpu_device =
  device_features :: "string list"
  device_limits :: gpu_limits
  shader_error :: "string option"

record adapter_info =
  info_vendor :: "string option"
  info_architecture :: "string option"
  info_device :: "string option"
  info_description :: "string option"

record gpu_adapter =
  info :: "adapter_info option"
  requestDevice :: "gpu_device outcome"

text \<open>
  \<open>window.isSecureContext\<close>, \<open>navigator.userAgent\<close> and \<open>navigator.gpu\<close>: \<open>None\<close> when
  \<open>navigator.gpu\<close> is undefined, else what \<open>requestAdapter()\<close> does.
\<close>

record environment =
  isSecureContext :: bool
  userAgent :: string
  gpu :: "gpu_adapter outcome option"

record performance_info =
  vendor :: "string option"
  architecture :: "string option"
  device_name :: "string option"
  description :: "string option"
  browser :: "string option"

definition no_info :: performance_info where
  "no_info = \<lparr>vendor = None, architecture = None, device_name = None, description = None,
     browser = None\<rparr>"

record capabilities =
  available :: bool
  supported :: bool
  adapter :: "gpu_adapter option"
  device :: "gpu_device option"
  reasons :: "string list"
  features :: "string list"
  limits :: gpu_limits
  performanceInfo :: performance_info
  errors :: "string list"

text \<open>The record of the constructor, to which \<open>runFullCheck\<close> resets.\<close>

definition reset :: capabilities where
  "reset = \<lparr>available = False, supported = False, adapter = None, device = None,
     reasons = [], features = [], limits = no_limits, performanceInfo = no_info,
     errors = []\<rparr>"

section \<open>webgpu-checker.js: the checks\<close>

definition checkAvailability :: "environment \<Rightarrow> capabilities \<Rightarrow> capabilities" where
  "checkAvailability env c =
     (let c1 = c\<lparr>reasons := [], errors := []\<rparr>
      in if gpu env = None
         then c1\<lparr>reasons := reasons c1 @ [''WebGPU API not available - navigator.gpu is undefined''],
                 errors := errors c1 @ [''BROWSER_NOT_SUPPORTED'']\<rparr>
         else c1\<lparr>available := True\<rparr>)"

text \<open>
  The \<open>catch\<close> branch of \<open>checkAdapter\<close>. When \<open>navigator.gpu\<close> is undefined the call inside
  the \<open>try\<close> block throws a TypeError, whose message (V8's wording) is the one below;
  \<open>runFullCheck\<close> never reaches \<open>checkAdapter\<close> in that state.
\<close>

definition adapter_failed :: "string \<Rightarrow> capabilities \<Rightarrow> capabilities" where
  "adapter_failed message c =
     c\<lparr>reasons := reasons c @ [''Failed to get GPU adapter: '' @ message],
       errors := errors c @ [''ADAPTER_ERROR'']\<rparr>"

definition checkAdapter :: "environment \<Rightarrow> capabilities \<Rightarrow> capabilities" where
  "checkAdapter env c =
     (case gpu env of
        None \<Rightarrow>
          adapter_failed ''Cannot read properties of undefined (reading 'requestAdapter')'' c
      | Some (Throws message) \<Rightarrow> adapter_failed message c
      | Some Null \<Rightarrow>
          c\<lparr>reasons := reasons c @ [''No GPU adapter found - GPU may be disabled or unsupported''],
            errors := errors c @ [''NO_ADAPTER'']\<rparr>
      | Some (Resolved a) \<Rightarrow>
          (let adapterInfo = (case info a of
                 None \<Rightarrow> \<lparr>info_vendor = None, info_architecture = None, info_device = None,
                           info_description = None\<rparr>
               | Some i \<Rightarrow> i)
           in c\<lparr>adapter := Some a, supported := True,
                performanceInfo :=
                  \<lparr>vendor = Some (or_string (info_vendor adapterInfo) ''Unknown''),
                   architecture = Some (or_string (info_architecture adapterInfo) ''Unknown''),
                   device_name = Some (or_string (info_device adapterInfo) ''Unknown''),
                   description = Some (or_string (info_description adapterInfo) ''Unknown''),
                   browser = None\<rparr>\<rparr>))"

definition checkDevice :: "capabilities \<Rightarrow> capabilities" where
  "checkDevice c =
     (case adapter c of
        None \<Rightarrow> c
      | Some a \<Rightarrow>
          (case requestDevice a of
             Throws message \<Rightarrow>
               c\<lparr>reasons := reasons c @ [''Failed to create GPU device: '' @ message],
                 errors := errors c @ [''DEVICE_ERROR'']\<rparr>
           | Null \<Rightarrow>
               c\<lparr>reasons := reasons c @ [''Failed to create GPU device''],
                 errors := errors c @ [''DEVICE_CREATION_FAILED'']\<rparr>
           | Resolved d \<Rightarrow>
               c\<lparr>device := Some d, features := device_features d,
                 limits := device_limits d\<rparr>))"

definition testComputeShader :: "capabilities \<Rightarrow> capabilities" where
  "testComputeShader c =
     (case device c of
        None \<Rightarrow> c
      | Some d \<Rightarrow>
          (case shader_error d of
             None \<Rightarrow> c\<lparr>reasons := reasons c @ [''Basic compute shader compilation successful'']\<rparr>
           | Some message \<Rightarrow>
               c\<lparr>reasons := reasons c @ [''Compute shader test failed: '' @ message],
                 errors := errors c @ [''SHADER_COMPILATION_FAILED'']\<rparr>))"

text \<open>\<open>checkSecureContext\<close> returns a flag and mutates the record: the model returns both.\<close>

definition checkSecureContext :: "environment \<Rightarrow> capabilities \<Rightarrow> bool \<times> capabilities" where
  "checkSecureContext env c =
     (if \<not> isSecureContext env
      then (False,
            c\<lparr>reasons := reasons c @ [''WebGPU requires a secure context (HTTPS, localhost, or file://)''],
              errors := errors c @ [''INSECURE_CONTEXT'']\<rparr>)
      else (True, c))"

text \<open>The last statement of \<open>checkBrowserCompatibility\<close>.\<close>

definition set_browser :: "string \<Rightarrow> capabilities \<Rightarrow> capabilities" where
  "set_browser browserInfo c =
     c\<lparr>performanceInfo := (performanceInfo c)\<lparr>browser := Some browserInfo\<rparr>\<rparr>"

definition checkBrowserCompatibility :: "environment \<Rightarrow> capabilities \<Rightarrow> capabilities" where
  "checkBrowserCompatibility env c =
     (let ua = userAgent env in
      if js_includes ua ''Chrome'' then
        (let version = parsed_version ''Chrome/'' ua
         in set_browser (''Chrome '' @ show_nat version)
              (if version < 113
               then c\<lparr>reasons := reasons c @
                        [''Chrome version '' @ show_nat version @
                         '' is too old. WebGPU requires Chrome 113+''],
                      errors := errors c @ [''BROWSER_VERSION_TOO_OLD'']\<rparr>
               else c))
      else if js_includes ua ''Firefox'' then
        (let version = parsed_version ''Firefox/'' ua
         in set_browser (''Firefox '' @ show_nat version)
              (if version < 113
               then c\<lparr>reasons := reasons c @
                        [''Firefox version '' @ show_nat version @
                         '' is too old. WebGPU requires Firefox 113+''],
                      errors := errors c @ [''BROWSER_VERSION_TOO_OLD'']\<rparr>
               else c))
      else if js_includes ua ''Safari'' then
        (let version = parsed_version ''Version/'' ua
         in set_browser (''Safari '' @ show_nat version)
              (if (of_nat version :: rat) < 164 / 10
               then c\<lparr>reasons := reasons c @
                        [''Safari version '' @ show_nat version @
                         '' is too old. WebGPU requires Safari 16.4+''],
                      errors := errors c @ [''BROWSER_VERSION_TOO_OLD'']\<rparr>
               else c))
      else if js_includes ua ''Edge'' then
        (let version = parsed_version ''Edg/'' ua
         in set_browser (''Edge '' @ show_nat version)
              (if version < 113
               then c\<lparr>reasons := reasons c @
                        [''Edge version '' @ show_nat version @
                         '' is too old. WebGPU requires Edge 113+''],
                      errors := errors c @ [''BROWSER_VERSION_TOO_OLD'']\<rparr>
               else c))
      else
        set_browser ''Unknown browser''
          (c\<lparr>reasons := reasons c @ [''Unsupported browser for WebGPU''],
             errors := errors c @ [''UNSUPPORTED_BROWSER'']\<rparr>))"

definition runFullCheck :: "environment \<Rightarrow> capabilities" where
  "runFullCheck env =
     (case checkSecureContext env reset of
        (False, c1) \<Rightarrow> c1
      | (True, c1) \<Rightarrow>
          (let c2 = checkBrowserCompatibility env c1;
               c3 = checkAvailability env c2
           in if \<not> available c3 then c3
              else (let c4 = checkAdapter env c3
                    in if \<not> supported c4 then c4
                       else (let c5 = checkDevice c4
                             in if device c5 = None then c5
                                else testComputeShader c5))))"

definition getPerformanceTier :: "capabilities \<Rightarrow> tier" where
  "getPerformanceTier c =
     (if \<not> supported c then Unavailable
      else (let l = limits c in
            if \<not> truthy (maxComputeInvocationsPerWorkgroup l) then Unknown
            else if js_ge (maxComputeInvocationsPerWorkgroup l) 1024 \<and>
                    js_ge (maxComputeWorkgroupSizeX l) 1024 \<and>
                    js_ge (maxStorageBufferBindingSize l) 134217728
                 then High
            else if js_ge (maxComputeInvocationsPerWorkgroup l) 512 \<and>
                    js_ge (maxComputeWorkgroupSizeX l) 512 \<and>
                    js_ge (maxStorageBufferBindingSize l) 67108864
                 then Medium
            else Low))"

section \<open>gpu-utils.js: optimized parameters\<close>

text \<open>
  The object \<open>getOptimizedGPUParameters\<close> returns; a key that a branch does not write is
  \<open>None\<close>.
\<close>

record optimized_parameters =
  useGPU :: bool
  reason :: "string option"
  performanceTier :: "tier option"
  optimizedNB_ITER :: nat
  optimizedNB_THREAD :: nat
  gpuInfo :: "performance_info option"
  result_limits :: "gpu_limits option"

text \<open>
  The body of \<open>getOptimizedGPUParameters\<close> after the probe has returned its record.
  \<open>getPerformanceTier\<close> reads the checker's current record, which is the object
  \<open>runFullCheck\<close> has just returned.
\<close>

definition parameters_of :: "capabilities \<Rightarrow> optimized_parameters" where
  "parameters_of c =
     (if \<not> supported c
      then \<lparr>useGPU = False, reason = Some ''WebGPU not supported'', performanceTier = None,
            optimizedNB_ITER = 256, optimizedNB_THREAD = 64, gpuInfo = None,
            result_limits = None\<rparr>
      else
        (let l = limits c;
             t = getPerformanceTier c;
             (iter, thread) =
               (if t = High then
                  (min 512 (or_default (floor_div (maxComputeWorkgroupsPerDimension l) 2) 512),
                   min 256 (or_default (maxComputeWorkgroupSizeX l) 256))
                else if t = Medium then
                  (min 384 (or_default (floor_div (maxComputeWorkgroupsPerDimension l) 3) 384),
                   min 128 (or_default (maxComputeWorkgroupSizeX l) 128))
                else if t = Low then
                  (min 256 (or_default (floor_div (maxComputeWorkgroupsPerDimension l) 4) 256),
                   min 64 (or_default (maxComputeWorkgroupSizeX l) 64))
                else (256, 64))
         in \<lparr>useGPU = True, reason = None, performanceTier = Some t,
              optimizedNB_ITER = iter, optimizedNB_THREAD = thread,
              gpuInfo = Some (performanceInfo c), result_limits = Some l\<rparr>))"

text \<open>
  No step of the probe throws out of its own \<open>try\<close> block on the environments modelled, so
  the outer \<open>catch\<close> of the source is not entered.
\<close>

definition getOptimizedGPUParameters :: "environment \<Rightarrow> optimized_parameters" where
  "getOptimizedGPUParameters env = parameters_of (runFullCheck env)"

section \<open>Notions of the specification\<close>

text \<open>
  The thresholds of a tier: all three limits are reported, invocations per workgroup and
  workgroup size X are at least \<open>k\<close>, and the storage buffer binding size is at least \<open>b\<close>.
\<close>

definition meets_thresholds :: "gpu_limits \<Rightarrow> nat \<Rightarrow> nat \<Rightarrow> bool" where
  "meets_thresholds l k b =
     (case (maxComputeInvocationsPerWorkgroup l, maxComputeWorkgroupSizeX l,
            maxStorageBufferBindingSize l) of
        (Some i, Some x, Some s) \<Rightarrow> k \<le> i \<and> k \<le> x \<and> b \<le> s
      | _ \<Rightarrow> False)"

text \<open>A supported record that reports the three limits the classifier reads.\<close>

definition supported_with :: "nat \<Rightarrow> nat \<Rightarrow> nat \<Rightarrow> capabilities" where
  "supported_with i x s =
     reset\<lparr>supported := True,
           limits := no_limits\<lparr>maxComputeInvocationsPerWorkgroup := Some i,
                              maxComputeWorkgroupSizeX := Some x,
                              maxStorageBufferBindingSize := Some s\<rparr>\<rparr>"

text \<open>A supported record whose device reports \<open>0\<close> invocations per workgroup.\<close>

definition zero_invocations :: capabilities where
  "zero_invocations =
     reset\<lparr>supported := True,
           limits := no_limits\<lparr>maxComputeInvocationsPerWorkgroup := Some 0\<rparr>\<rparr>"

text \<open>A high-tier record whose device reports \<open>0\<close> workgroups per dimension.\<close>

definition zero_workgroups :: capabilities where
  "zero_workgroups =
     reset\<lparr>supported := True,
           limits := no_limits\<lparr>maxComputeInvocationsPerWorkgroup := Some 1024,
                              maxComputeWorkgroupSizeX := Some 1024,
                              maxComputeWorkgroupsPerDimension := Some 0,
                              maxStorageBufferBindingSize := Some 134217728\<rparr>\<rparr>"

text \<open>The order high > medium > low > unknown (> unavailable).\<close>

definition tier_rank :: "tier \<Rightarrow> nat" where
  "tier_rank t =
     (case t of High \<Rightarrow> 4 | Medium \<Rightarrow> 3 | Low \<Rightarrow> 2 | Unknown \<Rightarrow> 1 | Unavailable \<Rightarrow> 0)"

text \<open>
  The runtime families A, B, C and D of the specification, in the order in which the
  check tests for them, with the pattern each version is parsed from and its minimum.
\<close>

datatype family = Chrome | Firefox | Safari | Edge

definition recognized_family :: "string \<Rightarrow> family option" where
  "recognized_family ua =
     (if js_includes ua ''Chrome'' then Some Chrome
      else if js_includes ua ''Firefox'' then Some Firefox
      else if js_includes ua ''Safari'' then Some Safari
      else if js_includes ua ''Edge'' then Some Edge
      else None)"

definition version_pattern :: "family \<Rightarrow> string" where
  "version_pattern f =
     (case f of Chrome \<Rightarrow> ''Chrome/'' | Firefox \<Rightarrow> ''Firefox/'' | Safari \<Rightarrow> ''Version/''
      | Edge \<Rightarrow> ''Edg/'')"

definition minimum_version :: "family \<Rightarrow> rat" where
  "minimum_version f =
     (case f of Chrome \<Rightarrow> 113 | Firefox \<Rightarrow> 113 | Safari \<Rightarrow> 164 / 10 | Edge \<Rightarrow> 113)"

text \<open>A family is recognized and its parsed version is below the family's minimum.\<close>

definition too_old :: "string \<Rightarrow> bool" where
  "too_old ua =
     (case recognized_family ua of
        None \<Rightarrow> False
      | Some f \<Rightarrow> rat_of_nat (parsed_version (version_pattern f) ua) < minimum_version f)"

text \<open>
  The tuning table of the specification: iteration cap, divisor of the
  workgroups-per-dimension limit, and thread cap of each tier that has them.
\<close>

definition tuning :: "tier \<Rightarrow> (nat \<times> nat \<times> nat) option" where
  "tuning t =
     (case t of High \<Rightarrow> Some (512, 2, 256) | Medium \<Rightarrow> Some (384, 3, 128)
      | Low \<Rightarrow> Some (256, 4, 64) | Unknown \<Rightarrow> None | Unavailable \<Rightarrow> None)"

text \<open>The value derived from a limit; an absent limit derives \<open>0\<close>.\<close>

definition derived_value :: "limit \<Rightarrow> nat \<Rightarrow> nat" where
  "derived_value v k = (case v of None \<Rightarrow> 0 | Some n \<Rightarrow> n div k)"

text \<open>The minimum of the cap and the derived value; a derived \<open>0\<close> falls back to the cap.\<close>

definition capped :: "nat \<Rightarrow> nat \<Rightarrow> nat" where
  "capped cap v = (if v = 0 then cap else min cap v)"

subsection \<open>Example environments\<close>

definition example_device :: "string option \<Rightarrow> gpu_device" where
  "example_device failure =
     \<lparr>device_features = [''shader-f16''],
      device_limits = no_limits\<lparr>maxComputeInvocationsPerWorkgroup := Some 1024,
                                maxComputeWorkgroupSizeX := Some 1024,
                                maxComputeWorkgroupsPerDimension := Some 65535,
                                maxStorageBufferBindingSize := Some 134217728\<rparr>,
      shader_error = failure\<rparr>"

definition example_adapter :: "string option \<Rightarrow> gpu_adapter" where
  "example_adapter failure = \<lparr>info = None, requestDevice = Resolved (example_device failure)\<rparr>"

text \<open>A secure page with a working adapter and device, under a given user agent.\<close>

definition example_env :: "string \<Rightarrow> string option \<Rightarrow> environment" where
  "example_env ua failure =
     \<lparr>isSecureContext = True, userAgent = ua, gpu = Some (Resolved (example_adapter failure))\<rparr>"

definition insecure_env :: environment where
  "insecure_env =
     \<lparr>isSecureContext = False, userAgent = ''Mozilla/5.0 Chrome/120.0.0.0 Safari/537.36'',
      gpu = Some (Resolved (example_adapter None))\<rparr>"

section \<open>Lemmas about the checks\<close>

lemma same_up_to_info:
  assumes "x\<lparr>performanceInfo := p\<rparr> = y\<lparr>performanceInfo := p\<rparr>"
  shows "x = y\<lparr>performanceInfo := performanceInfo x\<rparr>"
proof -
  have "x\<lparr>performanceInfo := p\<rparr>\<lparr>performanceInfo := performanceInfo x\<rparr> =
        y\<lparr>performanceInfo := p\<rparr>\<lparr>performanceInfo := performanceInfo x\<rparr>"
    by (simp only: assms)
  then show ?thesis by simp
qed

lemma checkAdapter_performanceInfo:
  "(checkAdapter env (c\<lparr>performanceInfo := q\<rparr>))\<lparr>performanceInfo := p\<rparr> =
   (checkAdapter env c)\<lparr>performanceInfo := p\<rparr>"
  by (simp add: checkAdapter_def adapter_failed_def Let_def split: option.splits outcome.splits)

lemma checkDevice_performanceInfo:
  "checkDevice (c\<lparr>performanceInfo := q\<rparr>) = (checkDevice c)\<lparr>performanceInfo := q\<rparr>"
  by (simp add: checkDevice_def split: option.splits outcome.splits)

lemma testComputeShader_performanceInfo:
  "testComputeShader (c\<lparr>performanceInfo := q\<rparr>) = (testComputeShader c)\<lparr>performanceInfo := q\<rparr>"
  by (simp add: testComputeShader_def split: option.splits)

text \<open>The checks that follow the availability check do not read \<open>performanceInfo\<close>.\<close>

lemma later_checks_performanceInfo:
  "(let c4 = checkAdapter env (c\<lparr>performanceInfo := q\<rparr>)
    in if \<not> supported c4 then c4
       else (let c5 = checkDevice c4
             in if device c5 = None then c5 else testComputeShader c5))\<lparr>performanceInfo := p\<rparr> =
   (let c4 = checkAdapter env c
    in if \<not> supported c4 then c4
       else (let c5 = checkDevice c4
             in if device c5 = None then c5 else testComputeShader c5))\<lparr>performanceInfo := p\<rparr>"
proof -
  obtain q' where "checkAdapter env (c\<lparr>performanceInfo := q\<rparr>) =
      (checkAdapter env c)\<lparr>performanceInfo := q'\<rparr>"
    using same_up_to_info [OF checkAdapter_performanceInfo] by blast
  then show ?thesis
    by (simp add: checkDevice_performanceInfo testComputeShader_performanceInfo Let_def)
qed

lemma checkAvailability_userAgent:
  "checkAvailability (env\<lparr>userAgent := ua'\<rparr>) c = checkAvailability env c"
  by (simp add: checkAvailability_def)

lemma checkAdapter_userAgent:
  "checkAdapter (env\<lparr>userAgent := ua'\<rparr>) c = checkAdapter env c"
  by (simp add: checkAdapter_def)

text \<open>\<open>checkAvailability\<close> empties \<open>reasons\<close> and \<open>errors\<close> before it does anything else.\<close>

lemma checkAvailability_forgets:
  "checkAvailability env (c\<lparr>reasons := r, errors := e, performanceInfo := q\<rparr>) =
   (checkAvailability env c)\<lparr>performanceInfo := q\<rparr>"
  by (simp add: checkAvailability_def Let_def)

lemma checkBrowserCompatibility_shape:
  "\<exists>r e q. checkBrowserCompatibility env c = c\<lparr>reasons := r, errors := e, performanceInfo := q\<rparr>"
proof -
  have "checkBrowserCompatibility env c =
        c\<lparr>reasons := reasons (checkBrowserCompatibility env c),
          errors := errors (checkBrowserCompatibility env c),
          performanceInfo := performanceInfo (checkBrowserCompatibility env c)\<rparr>"
    by (simp add: checkBrowserCompatibility_def set_browser_def Let_def)
  then show ?thesis by blast
qed

lemma errors_set_browser: "errors (set_browser b c) = errors c"
  by (simp add: set_browser_def)

lemma browser_errors:
  "errors (checkBrowserCompatibility env c) =
     errors c @
       (if recognized_family (userAgent env) = None then [''UNSUPPORTED_BROWSER'']
        else if too_old (userAgent env) then [''BROWSER_VERSION_TOO_OLD''] else [])"
  by (simp add: checkBrowserCompatibility_def recognized_family_def too_old_def
        version_pattern_def minimum_version_def Let_def errors_set_browser)

lemma unparsed_version:
  assumes "recognized_family ua = Some f" and "match_digits (version_pattern f) ua = None"
  shows "parsed_version (version_pattern f) ua = 0 \<and> too_old ua"
  using assms by (cases f) (simp_all add: too_old_def parsed_version_def minimum_version_def)

lemma runFullCheck_secure:
  "isSecureContext env \<Longrightarrow>
   runFullCheck env =
     (let c3 = checkAvailability env (checkBrowserCompatibility env reset)
      in if \<not> available c3 then c3
         else (let c4 = checkAdapter env c3
               in if \<not> supported c4 then c4
                  else (let c5 = checkDevice c4
                        in if device c5 = None then c5 else testComputeShader c5)))"
  by (simp add: runFullCheck_def checkSecureContext_def)

lemma runFullCheck_insecure:
  "\<not> isSecureContext env \<Longrightarrow>
   runFullCheck env =
     reset\<lparr>reasons := [''WebGPU requires a secure context (HTTPS, localhost, or file://)''],
           errors := [''INSECURE_CONTEXT'']\<rparr>"
  by (simp add: runFullCheck_def checkSecureContext_def reset_def)

text \<open>
  Up to \<open>performanceInfo\<close>, a run in a secure context is the run of the availability,
  adapter, device and shader checks on the reset record: nothing of the browser check
  is left in the other fields.
\<close>

lemma runFullCheck_browser_free:
  assumes "isSecureContext env"
  shows "(runFullCheck env)\<lparr>performanceInfo := p\<rparr> =
     (let c3 = checkAvailability env reset
      in if \<not> available c3 then c3
         else (let c4 = checkAdapter env c3
               in if \<not> supported c4 then c4
                  else (let c5 = checkDevice c4
                        in if device c5 = None then c5 else testComputeShader c5)))\<lparr>performanceInfo := p\<rparr>"
proof -
  obtain r e q where s: "checkBrowserCompatibility env reset =
      reset\<lparr>reasons := r, errors := e, performanceInfo := q\<rparr>"
    using checkBrowserCompatibility_shape by blast
  have a: "checkAvailability env (checkBrowserCompatibility env reset) =
      (checkAvailability env reset)\<lparr>performanceInfo := q\<rparr>"
    by (simp only: s checkAvailability_forgets)
  define c3 where "c3 = checkAvailability env reset"
  have l: "runFullCheck env =
      (if \<not> available c3 then c3\<lparr>performanceInfo := q\<rparr>
       else (let c4 = checkAdapter env (c3\<lparr>performanceInfo := q\<rparr>)
             in if \<not> supported c4 then c4
                else (let c5 = checkDevice c4
                      in if device c5 = None then c5 else testComputeShader c5)))"
    unfolding runFullCheck_secure [OF assms] a c3_def [symmetric] by (simp add: Let_def)
  show ?thesis
  proof (cases "available c3")
    case False
    then show ?thesis unfolding l c3_def [symmetric] by (simp add: Let_def)
  next
    case True
    have "runFullCheck env =
       (let c4 = checkAdapter env (c3\<lparr>performanceInfo := q\<rparr>)
             in if \<not> supported c4 then c4
                else (let c5 = checkDevice c4
                      in if device c5 = None then c5 else testComputeShader c5))"
      unfolding l using True by simp
    then show ?thesis
      unfolding c3_def [symmetric] using True
      by (simp add: later_checks_performanceInfo del: Let_def)
  qed
qed

lemma runFullCheck_userAgent:
  "(runFullCheck (env\<lparr>userAgent := ua'\<rparr>))\<lparr>performanceInfo := p\<rparr> =
   (runFullCheck env)\<lparr>performanceInfo := p\<rparr>"
proof (cases "isSecureContext env")
  case True
  then have "isSecureContext (env\<lparr>userAgent := ua'\<rparr>)" by simp
  from runFullCheck_browser_free [OF this] runFullCheck_browser_free [OF True]
  show ?thesis by (simp only: checkAvailability_userAgent checkAdapter_userAgent)
next
  case False
  then show ?thesis by (simp add: runFullCheck_insecure)
qed

lemma checkBrowserCompatibility_fields:
  "available (checkBrowserCompatibility env c) = available c"
  "supported (checkBrowserCompatibility env c) = supported c"
  "adapter (checkBrowserCompatibility env c) = adapter c"
  "device (checkBrowserCompatibility env c) = device c"
  "features (checkBrowserCompatibility env c) = features c"
  "limits (checkBrowserCompatibility env c) = limits c"
proof -
  obtain r e q where s: "checkBrowserCompatibility env c =
      c\<lparr>reasons := r, errors := e, performanceInfo := q\<rparr>"
    using checkBrowserCompatibility_shape by blast
  show "available (checkBrowserCompatibility env c) = available c"
    "supported (checkBrowserCompatibility env c) = supported c"
    "adapter (checkBrowserCompatibility env c) = adapter c"
    "device (checkBrowserCompatibility env c) = device c"
    "features (checkBrowserCompatibility env c) = features c"
    "limits (checkBrowserCompatibility env c) = limits c"
    by (simp_all add: s)
qed

lemma checkAvailability_fields:
  "available (checkAvailability env c) = (available c \<or> gpu env \<noteq> None)"
  "supported (checkAvailability env c) = supported c"
  "adapter (checkAvailability env c) = adapter c"
  "device (checkAvailability env c) = device c"
  "features (checkAvailability env c) = features c"
  "limits (checkAvailability env c) = limits c"
  by (simp_all add: checkAvailability_def Let_def)

lemma checkAdapter_fields:
  "available (checkAdapter env c) = available c"
  "device (checkAdapter env c) = device c"
  "features (checkAdapter env c) = features c"
  "limits (checkAdapter env c) = limits c"
  by (simp_all add: checkAdapter_def adapter_failed_def Let_def split: option.splits outcome.splits)

lemma checkDevice_fields:
  "available (checkDevice c) = available c"
  "supported (checkDevice c) = supported c"
  "adapter (checkDevice c) = adapter c"
  by (simp_all add: checkDevice_def split: option.splits outcome.splits)

lemma testComputeShader_fields:
  "available (testComputeShader c) = available c"
  "supported (testComputeShader c) = supported c"
  "adapter (testComputeShader c) = adapter c"
  "device (testComputeShader c) = device c"
  "features (testComputeShader c) = features c"
  "limits (testComputeShader c) = limits c"
  "performanceInfo (testComputeShader c) = performanceInfo c"
  by (simp_all add: testComputeShader_def split: option.splits)

lemmas check_fields = checkBrowserCompatibility_fields checkAvailability_fields
  checkAdapter_fields checkDevice_fields testComputeShader_fields

text \<open>A run that finds an adapter and a device, whatever the user agent says.\<close>

lemma runFullCheck_with_device:
  assumes "isSecureContext env" and "gpu env = Some (Resolved a)"
    and "requestDevice a = Resolved d"
  shows "available (runFullCheck env)" and "supported (runFullCheck env)"
    and "adapter (runFullCheck env) = Some a" and "device (runFullCheck env) = Some d"
    and "features (runFullCheck env) = device_features d"
    and "limits (runFullCheck env) = device_limits d"
    and "reasons (runFullCheck env) = reasons (testComputeShader (reset\<lparr>device := Some d\<rparr>))"
    and "errors (runFullCheck env) = errors (testComputeShader (reset\<lparr>device := Some d\<rparr>))"
proof -
  let ?c = "(runFullCheck env)\<lparr>performanceInfo := no_info\<rparr>"
  have "available ?c \<and> supported ?c \<and> adapter ?c = Some a \<and> device ?c = Some d \<and>
        features ?c = device_features d \<and> limits ?c = device_limits d \<and>
        reasons ?c = reasons (testComputeShader (reset\<lparr>device := Some d\<rparr>)) \<and>
        errors ?c = errors (testComputeShader (reset\<lparr>device := Some d\<rparr>))"
    using assms(2,3)
    by (simp add: runFullCheck_browser_free [OF assms(1)] checkAvailability_def checkAdapter_def
          checkDevice_def testComputeShader_def Let_def reset_def split: option.splits)
  then show "available (runFullCheck env)" and "supported (runFullCheck env)"
    and "adapter (runFullCheck env) = Some a" and "device (runFullCheck env) = Some d"
    and "features (runFullCheck env) = device_features d"
    and "limits (runFullCheck env) = device_limits d"
    and "reasons (runFullCheck env) = reasons (testComputeShader (reset\<lparr>device := Some d\<rparr>))"
    and "errors (runFullCheck env) = errors (testComputeShader (reset\<lparr>device := Some d\<rparr>))"
    by simp_all
qed

lemma example_env_facts:
  "isSecureContext (example_env ua m)"
  "gpu (example_env ua m) = Some (Resolved (example_adapter m))"
  "requestDevice (example_adapter m) = Resolved (example_device m)"
  "userAgent (example_env ua m) = ua"
  "shader_error (example_device m) = m"
  by (simp_all add: example_env_def example_adapter_def example_device_def)

section \<open>The claims\<close>

text \<open>
  C1, as amended. For every concurrency hint \<open>n\<close>, \<open>estimatePerformanceGain\<close> returns
  \<open>20 + 2n\<close> at tier high, \<open>10 + n\<close> at medium and \<open>4 + n/2\<close> at low, each floored at \<open>1\<close>;
  the floor applies to tier unavailable too, whose estimate is \<open>1\<close>. At \<open>n = 4\<close> the
  four values are 28, 14, 6 and 1.
\<close>

theorem C1_estimatePerformanceGain:
  "estimatePerformanceGain High (Some n) = max 1 (20 + 2 * n) \<and>
   estimatePerformanceGain Medium (Some n) = max 1 (10 + n) \<and>
   estimatePerformanceGain Low (Some n) = max 1 (4 + n / 2) \<and>
   estimatePerformanceGain Unavailable (Some n) = 1 \<and>
   estimatePerformanceGain High (Some 4) = 28 \<and>
   estimatePerformanceGain Medium (Some 4) = 14 \<and>
   estimatePerformanceGain Low (Some 4) = 6 \<and>
   estimatePerformanceGain Unavailable (Some 4) = 1"
  by (simp add: estimatePerformanceGain_def gains_def or_number_def max_def)

text \<open>
  C1 as the specification states it fails: at tier unavailable and \<open>n = 4\<close> the source
  returns \<open>Math.max(1, 0 || 0)\<close>, which is \<open>1\<close> and not \<open>0\<close>.
\<close>

theorem C1_unavailable_counterexample:
  "estimatePerformanceGain Unavailable (Some 4) = 1 \<and>
   estimatePerformanceGain Unavailable (Some 4) \<noteq> 0"
  by (simp add: estimatePerformanceGain_def gains_def or_number_def)

text \<open>
  C2, as amended. For every capability record with \<open>supported = false\<close> the optimized
  parameters have \<open>useGPU = false\<close>, the reason \<open>WebGPU not supported\<close>, iteration count 256
  and thread count 64, whatever the other fields hold. The result carries no
  \<open>performanceTier\<close> key; the classifier, asked about the same record, answers unavailable.
\<close>

theorem C2_unsupported:
  assumes "\<not> supported c"
  shows "useGPU (parameters_of c) = False \<and>
         reason (parameters_of c) = Some ''WebGPU not supported'' \<and>
         performanceTier (parameters_of c) = None \<and>
         optimizedNB_ITER (parameters_of c) = 256 \<and>
         optimizedNB_THREAD (parameters_of c) = 64 \<and>
         getPerformanceTier c = Unavailable"
  using assms by (simp add: parameters_of_def getPerformanceTier_def)

theorem C2_unsupported_witness:
  "\<not> supported (runFullCheck insecure_env) \<and>
   useGPU (getOptimizedGPUParameters insecure_env) = False \<and>
   performanceTier (getOptimizedGPUParameters insecure_env) = None \<and>
   optimizedNB_ITER (getOptimizedGPUParameters insecure_env) = 256 \<and>
   optimizedNB_THREAD (getOptimizedGPUParameters insecure_env) = 64"
proof -
  have h: "\<not> supported (runFullCheck insecure_env)"
    by (simp add: runFullCheck_insecure insecure_env_def reset_def)
  from C2_unsupported [OF h] h show ?thesis
    by (simp add: getOptimizedGPUParameters_def)
qed

text \<open>
  C2 as the specification states it fails: the result for an unsupported record, here the
  one of a run in an insecure context, has no performance tier at all.
\<close>

theorem C2_tier_counterexample:
  "\<not> supported (runFullCheck insecure_env) \<and>
   performanceTier (getOptimizedGPUParameters insecure_env) = None \<and>
   performanceTier (getOptimizedGPUParameters insecure_env) \<noteq> Some Unavailable"
  by (simp add: getOptimizedGPUParameters_def parameters_of_def runFullCheck_insecure
        insecure_env_def reset_def)

text \<open>
  C3, as amended. The classifier returns unavailable exactly when \<open>supported\<close> is false;
  unknown exactly when the record is supported and the invocations-per-workgroup limit
  is absent or zero; high exactly when the record is supported and invocations and size X
  are at least 1024 and the storage buffer binding at least 134217728; medium exactly
  when it is supported, not high, and the three limits reach 512, 512 and 67108864; and
  low in every other case. Limits 1024, 1024, 134217728 classify as high, a storage
  binding of 67108864 instead gives medium, and 100 invocations instead give low.
\<close>

theorem C3_tier_classifier:
  "(getPerformanceTier c = Unavailable \<longleftrightarrow> \<not> supported c) \<and>
   (getPerformanceTier c = Unknown \<longleftrightarrow>
      supported c \<and> (maxComputeInvocationsPerWorkgroup (limits c) = None \<or>
                     maxComputeInvocationsPerWorkgroup (limits c) = Some 0)) \<and>
   (getPerformanceTier c = High \<longleftrightarrow>
      supported c \<and> meets_thresholds (limits c) 1024 134217728) \<and>
   (getPerformanceTier c = Medium \<longleftrightarrow>
      supported c \<and> \<not> meets_thresholds (limits c) 1024 134217728 \<and>
      meets_thresholds (limits c) 512 67108864) \<and>
   (getPerformanceTier c = Low \<longleftrightarrow>
      supported c \<and> maxComputeInvocationsPerWorkgroup (limits c) \<noteq> None \<and>
      maxComputeInvocationsPerWorkgroup (limits c) \<noteq> Some 0 \<and>
      \<not> meets_thresholds (limits c) 1024 134217728 \<and>
      \<not> meets_thresholds (limits c) 512 67108864) \<and>
   getPerformanceTier (supported_with 1024 1024 134217728) = High \<and>
   getPerformanceTier (supported_with 1024 1024 67108864) = Medium \<and>
   getPerformanceTier (supported_with 100 1024 134217728) = Low"
  by (auto simp: getPerformanceTier_def truthy_def js_ge_def meets_thresholds_def Let_def
        supported_with_def reset_def no_limits_def split: option.splits)

text \<open>
  C3 as the specification states it fails: a supported record whose invocations limit is
  present and equal to \<open>0\<close> meets neither the high nor the medium thresholds, so the claim
  makes it low; the source tests \<open>!limits.maxComputeInvocationsPerWorkgroup\<close> and returns
  unknown.
\<close>

theorem C3_zero_invocations_counterexample:
  "supported zero_invocations \<and>
   maxComputeInvocationsPerWorkgroup (limits zero_invocations) = Some 0 \<and>
   getPerformanceTier zero_invocations = Unknown \<and>
   getPerformanceTier zero_invocations \<noteq> Low"
  by (simp add: getPerformanceTier_def truthy_def zero_invocations_def reset_def no_limits_def)

text \<open>
  C4. The browser check appends \<open>UNSUPPORTED_BROWSER\<close> exactly when no family is
  recognized and \<open>BROWSER_VERSION_TOO_OLD\<close> exactly when a family is recognized and its
  parsed version is below the family's minimum (113, 113, 16.4, 113), and nothing else; a
  version that does not parse is \<open>0\<close> and is too old. The check does not stop the run:
  two runs that differ in the user agent only agree on every field but
  \<open>performanceInfo\<close>, in a secure context \<open>available\<close> is decided by the availability check,
  and an adapter and a device that the environment provides are acquired.
\<close>

theorem C4_browser_compatibility:
  "errors (checkBrowserCompatibility env c) =
     errors c @
       (if recognized_family (userAgent env) = None then [''UNSUPPORTED_BROWSER'']
        else if too_old (userAgent env) then [''BROWSER_VERSION_TOO_OLD''] else []) \<and>
   (''BROWSER_VERSION_TOO_OLD'' \<in> set (errors (checkBrowserCompatibility env reset)) \<longleftrightarrow>
      too_old (userAgent env)) \<and>
   (''UNSUPPORTED_BROWSER'' \<in> set (errors (checkBrowserCompatibility env reset)) \<longleftrightarrow>
      recognized_family (userAgent env) = None) \<and>
   (recognized_family (userAgent env) = Some f \<and>
    match_digits (version_pattern f) (userAgent env) = None \<longrightarrow>
      parsed_version (version_pattern f) (userAgent env) = 0 \<and> too_old (userAgent env)) \<and>
   (runFullCheck (env\<lparr>userAgent := ua'\<rparr>))\<lparr>performanceInfo := p\<rparr> =
     (runFullCheck env)\<lparr>performanceInfo := p\<rparr> \<and>
   (isSecureContext env \<longrightarrow> available (runFullCheck env) = (gpu env \<noteq> None)) \<and>
   (isSecureContext env \<and> gpu env = Some (Resolved a) \<and> requestDevice a = Resolved d \<longrightarrow>
      supported (runFullCheck env) \<and> adapter (runFullCheck env) = Some a \<and>
      device (runFullCheck env) = Some d)"
proof -
  have too: "''BROWSER_VERSION_TOO_OLD'' \<in> set (errors (checkBrowserCompatibility env reset)) \<longleftrightarrow>
      too_old (userAgent env)"
    by (simp add: browser_errors reset_def too_old_def)
  have uns: "''UNSUPPORTED_BROWSER'' \<in> set (errors (checkBrowserCompatibility env reset)) \<longleftrightarrow>
      recognized_family (userAgent env) = None"
    by (simp add: browser_errors reset_def)
  have av: "available (runFullCheck env) = (gpu env \<noteq> None)" if s: "isSecureContext env"
  proof -
    have "available ((runFullCheck env)\<lparr>performanceInfo := no_info\<rparr>) = (gpu env \<noteq> None)"
      unfolding runFullCheck_browser_free [OF s]
      by (simp add: Let_def check_fields reset_def)
    then show ?thesis by simp
  qed
  show ?thesis
    using browser_errors [where env = env and c = c] too uns unparsed_version [where ua = "userAgent env" and f = f]
      runFullCheck_userAgent [where env = env and ua' = ua' and p = p] av runFullCheck_with_device(2-4) [where env = env and a = a and d = d]
    by blast
qed

theorem C4_browser_compatibility_witness:
  "recognized_family ''Mozilla/5.0 Chrome/100.0.4896.127 Safari/537.36'' = Some Chrome \<and>
   parsed_version ''Chrome/'' ''Mozilla/5.0 Chrome/100.0.4896.127 Safari/537.36'' = 100 \<and>
   errors (checkBrowserCompatibility
             (example_env ''Mozilla/5.0 Chrome/100.0.4896.127 Safari/537.36'' None) reset) =
     [''BROWSER_VERSION_TOO_OLD''] \<and>
   recognized_family ''Mozilla/5.0 Chrome Safari'' = Some Chrome \<and>
   match_digits (version_pattern Chrome) ''Mozilla/5.0 Chrome Safari'' = None \<and>
   too_old ''Mozilla/5.0 Chrome Safari'' \<and>
   errors (checkBrowserCompatibility (example_env ''Mozilla/5.0 Chrome Safari'' None) reset) =
     [''BROWSER_VERSION_TOO_OLD''] \<and>
   errors (checkBrowserCompatibility (example_env ''curl/8.5.0'' None) reset) =
     [''UNSUPPORTED_BROWSER''] \<and>
   available (runFullCheck (example_env ''Mozilla/5.0 Chrome Safari'' None)) \<and>
   supported (runFullCheck (example_env ''Mozilla/5.0 Chrome Safari'' None)) \<and>
   device (runFullCheck (example_env ''Mozilla/5.0 Chrome Safari'' None)) =
     Some (example_device None)"
proof -
  have f1: "recognized_family ''Mozilla/5.0 Chrome/100.0.4896.127 Safari/537.36'' = Some Chrome"
    by (simp add: recognized_family_def)
  have v1: "parsed_version ''Chrome/'' ''Mozilla/5.0 Chrome/100.0.4896.127 Safari/537.36'' = 100"
    by (simp add: parsed_version_def match_at_def is_digit_def parseInt_def digit_value_def)
  have t1: "too_old ''Mozilla/5.0 Chrome/100.0.4896.127 Safari/537.36''"
    by (simp add: too_old_def f1 version_pattern_def v1 minimum_version_def)
  have f2: "recognized_family ''Mozilla/5.0 Chrome Safari'' = Some Chrome"
    by (simp add: recognized_family_def)
  have m2: "match_digits (version_pattern Chrome) ''Mozilla/5.0 Chrome Safari'' = None"
    by (simp add: version_pattern_def match_at_def is_digit_def)
  have f3: "recognized_family ''curl/8.5.0'' = None"
    by (simp add: recognized_family_def)
  note old = C4_browser_compatibility [where c = reset and f = Chrome and ua' = "[]"
      and p = no_info and a = "example_adapter None" and d = "example_device None"
      and env = "example_env ''Mozilla/5.0 Chrome/100.0.4896.127 Safari/537.36'' None"]
  note bare = C4_browser_compatibility [where c = reset and f = Chrome and ua' = "[]"
      and p = no_info and a = "example_adapter None" and d = "example_device None"
      and env = "example_env ''Mozilla/5.0 Chrome Safari'' None"]
  note curl = C4_browser_compatibility [where c = reset and f = Chrome and ua' = "[]"
      and p = no_info and a = "example_adapter None" and d = "example_device None"
      and env = "example_env ''curl/8.5.0'' None"]
  have t2: "too_old ''Mozilla/5.0 Chrome Safari''"
    using bare f2 m2 by (simp add: example_env_facts)
  have e1: "errors (checkBrowserCompatibility
             (example_env ''Mozilla/5.0 Chrome/100.0.4896.127 Safari/537.36'' None) reset) =
     [''BROWSER_VERSION_TOO_OLD'']"
    using old by (simp add: example_env_facts f1 t1 reset_def)
  have e2: "errors (checkBrowserCompatibility (example_env ''Mozilla/5.0 Chrome Safari'' None) reset) =
     [''BROWSER_VERSION_TOO_OLD'']"
    using bare by (simp add: example_env_facts f2 t2 reset_def)
  have e3: "errors (checkBrowserCompatibility (example_env ''curl/8.5.0'' None) reset) =
     [''UNSUPPORTED_BROWSER'']"
    using curl by (simp add: example_env_facts f3 reset_def)
  have r: "available (runFullCheck (example_env ''Mozilla/5.0 Chrome Safari'' None)) \<and>
      supported (runFullCheck (example_env ''Mozilla/5.0 Chrome Safari'' None)) \<and>
      device (runFullCheck (example_env ''Mozilla/5.0 Chrome Safari'' None)) =
        Some (example_device None)"
    using bare by (simp add: example_env_facts)
  from f1 v1 e1 f2 m2 t2 e2 e3 r show ?thesis by simp
qed

text \<open>
  C5. On a supported record the classifier is monotonic in the three limits it reads:
  when none of invocations per workgroup, workgroup size X and storage buffer binding
  size decreases (an absent limit counting as below every reported one), the tier does
  not decrease in the order high > medium > low > unknown. Raising one limit and keeping
  the other two is the special case.
\<close>

theorem C5_tier_monotone:
  assumes "supported c"
    and "maxComputeInvocationsPerWorkgroup l \<le> maxComputeInvocationsPerWorkgroup l'"
    and "maxComputeWorkgroupSizeX l \<le> maxComputeWorkgroupSizeX l'"
    and "maxStorageBufferBindingSize l \<le> maxStorageBufferBindingSize l'"
  shows "tier_rank (getPerformanceTier (c\<lparr>limits := l\<rparr>)) \<le>
         tier_rank (getPerformanceTier (c\<lparr>limits := l'\<rparr>))"
  using assms
  by (auto simp: getPerformanceTier_def truthy_def js_ge_def tier_rank_def Let_def
        split: option.splits)

theorem C5_tier_monotone_witness:
  "supported (supported_with 1024 1024 67108864) \<and>
   maxStorageBufferBindingSize (limits (supported_with 1024 1024 67108864)) \<le>
   maxStorageBufferBindingSize (limits (supported_with 1024 1024 134217728)) \<and>
   getPerformanceTier (supported_with 1024 1024 67108864) = Medium \<and>
   getPerformanceTier (supported_with 1024 1024 134217728) = High \<and>
   tier_rank (getPerformanceTier (supported_with 1024 1024 67108864)) \<le>
   tier_rank (getPerformanceTier (supported_with 1024 1024 134217728))"
proof -
  let ?c = "supported_with 1024 1024 67108864"
  let ?l = "limits (supported_with 1024 1024 67108864)"
  let ?l' = "limits (supported_with 1024 1024 134217728)"
  have s: "supported ?c"
    by (simp add: supported_with_def)
  have a: "maxComputeInvocationsPerWorkgroup ?l \<le> maxComputeInvocationsPerWorkgroup ?l'"
    by (simp add: supported_with_def)
  have b: "maxComputeWorkgroupSizeX ?l \<le> maxComputeWorkgroupSizeX ?l'"
    by (simp add: supported_with_def)
  have d: "maxStorageBufferBindingSize ?l \<le> maxStorageBufferBindingSize ?l'"
    by (simp add: supported_with_def)
  have u: "?c\<lparr>limits := ?l\<rparr> = ?c" "?c\<lparr>limits := ?l'\<rparr> = supported_with 1024 1024 134217728"
    by (simp_all add: supported_with_def)
  have m: "getPerformanceTier (supported_with 1024 1024 67108864) = Medium"
    "getPerformanceTier (supported_with 1024 1024 134217728) = High"
    by (simp_all add: getPerformanceTier_def truthy_def js_ge_def supported_with_def reset_def
          no_limits_def)
  from C5_tier_monotone [OF s a b d] s d m show ?thesis
    unfolding u by simp
qed

text \<open>
  C6. In every record that \<open>runFullCheck\<close> returns, a device implies \<open>supported\<close> and
  \<open>supported\<close> implies \<open>available\<close>.
\<close>

theorem C6_implication_chain:
  "(device (runFullCheck env) \<noteq> None \<longrightarrow> supported (runFullCheck env)) \<and>
   (supported (runFullCheck env) \<longrightarrow> available (runFullCheck env))"
proof (cases "isSecureContext env")
  case False
  then show ?thesis by (simp add: runFullCheck_insecure reset_def)
next
  case True
  show ?thesis
    unfolding runFullCheck_secure [OF True]
    by (simp add: Let_def check_fields reset_def)
qed

theorem C6_implication_chain_witness:
  "device (runFullCheck (example_env ''Mozilla/5.0 Firefox/141.0'' None)) \<noteq> None \<and>
   supported (runFullCheck (example_env ''Mozilla/5.0 Firefox/141.0'' None)) \<and>
   available (runFullCheck (example_env ''Mozilla/5.0 Firefox/141.0'' None))"
proof -
  have d: "device (runFullCheck (example_env ''Mozilla/5.0 Firefox/141.0'' None)) \<noteq> None"
    using runFullCheck_with_device(4) [OF example_env_facts(1-3)] by simp
  from C6_implication_chain [of "example_env ''Mozilla/5.0 Firefox/141.0'' None"] d
  show ?thesis by simp
qed

text \<open>
  C7. In an insecure context \<open>runFullCheck\<close> returns a record whose \<open>reasons\<close> hold the
  insecure-context diagnostic and nothing else, whose \<open>errors\<close> hold \<open>INSECURE_CONTEXT\<close>
  and nothing else, with \<open>available\<close> and \<open>supported\<close> false and no adapter, device,
  feature, limit or performance information.
\<close>

theorem C7_insecure_context:
  assumes "\<not> isSecureContext env"
  shows "reasons (runFullCheck env) =
           [''WebGPU requires a secure context (HTTPS, localhost, or file://)''] \<and>
         length (reasons (runFullCheck env)) = 1 \<and>
         errors (runFullCheck env) = [''INSECURE_CONTEXT''] \<and>
         \<not> available (runFullCheck env) \<and> \<not> supported (runFullCheck env) \<and>
         adapter (runFullCheck env) = None \<and> device (runFullCheck env) = None \<and>
         features (runFullCheck env) = [] \<and> limits (runFullCheck env) = no_limits \<and>
         performanceInfo (runFullCheck env) = no_info"
  by (simp add: runFullCheck_insecure [OF assms] reset_def)

theorem C7_insecure_context_witness:
  "\<not> isSecureContext insecure_env \<and>
   gpu insecure_env = Some (Resolved (example_adapter None)) \<and>
   errors (runFullCheck insecure_env) = [''INSECURE_CONTEXT''] \<and>
   length (reasons (runFullCheck insecure_env)) = 1 \<and>
   adapter (runFullCheck insecure_env) = None \<and>
   device (runFullCheck insecure_env) = None \<and>
   limits (runFullCheck insecure_env) = no_limits"
proof -
  have h: "\<not> isSecureContext insecure_env"
    by (simp add: insecure_env_def)
  have g: "gpu insecure_env = Some (Resolved (example_adapter None))"
    by (simp add: insecure_env_def)
  from C7_insecure_context [OF h] h g show ?thesis by simp
qed

text \<open>
  C8. On a supported record classified high, medium or low, the iteration count is the
  minimum of the tier's iteration cap (512, 384, 256) and the workgroups-per-dimension
  limit divided by the tier's divisor (2, 3, 4) and rounded down, and the thread count is
  the minimum of the tier's thread cap (256, 128, 64) and the workgroup size X; a derived
  value of zero, also one that comes from an absent limit, gives the cap. A reported
  workgroups-per-dimension of \<open>0\<close> at tier high gives iteration count 512.
\<close>

theorem C8_tuning_parameters:
  assumes "supported c" and "tuning (getPerformanceTier c) = Some (icap, k, tcap)"
  shows "optimizedNB_ITER (parameters_of c) =
           capped icap (derived_value (maxComputeWorkgroupsPerDimension (limits c)) k) \<and>
         optimizedNB_THREAD (parameters_of c) =
           capped tcap (derived_value (maxComputeWorkgroupSizeX (limits c)) 1) \<and>
         (getPerformanceTier c = High \<and>
          maxComputeWorkgroupsPerDimension (limits c) = Some 0 \<longrightarrow>
            optimizedNB_ITER (parameters_of c) = 512)"
proof (cases "getPerformanceTier c")
  case High
  with assms show ?thesis
    by (simp add: parameters_of_def tuning_def capped_def derived_value_def or_default_def
          floor_div_def Let_def split: option.splits)
next
  case Medium
  with assms show ?thesis
    by (simp add: parameters_of_def tuning_def capped_def derived_value_def or_default_def
          floor_div_def Let_def split: option.splits)
next
  case Low
  with assms show ?thesis
    by (simp add: parameters_of_def tuning_def capped_def derived_value_def or_default_def
          floor_div_def Let_def split: option.splits)
next
  case Unknown
  with assms show ?thesis by (simp add: tuning_def)
next
  case Unavailable
  with assms show ?thesis by (simp add: tuning_def)
qed

theorem C8_tuning_parameters_witness:
  "supported zero_workgroups \<and>
   getPerformanceTier zero_workgroups = High \<and>
   maxComputeWorkgroupsPerDimension (limits zero_workgroups) = Some 0 \<and>
   optimizedNB_ITER (parameters_of zero_workgroups) = 512 \<and>
   optimizedNB_THREAD (parameters_of zero_workgroups) = 256"
proof -
  have s: "supported zero_workgroups"
    by (simp add: zero_workgroups_def)
  have h: "getPerformanceTier zero_workgroups = High"
    by (simp add: getPerformanceTier_def truthy_def js_ge_def zero_workgroups_def reset_def
          no_limits_def)
  have t: "tuning (getPerformanceTier zero_workgroups) = Some (512, 2, 256)"
    by (simp add: h tuning_def)
  have w: "maxComputeWorkgroupsPerDimension (limits zero_workgroups) = Some 0"
    by (simp add: zero_workgroups_def)
  have x: "maxComputeWorkgroupSizeX (limits zero_workgroups) = Some 1024"
    by (simp add: zero_workgroups_def)
  have i: "optimizedNB_ITER (parameters_of zero_workgroups) = 512"
    using C8_tuning_parameters [OF s t] h w by blast
  have "optimizedNB_THREAD (parameters_of zero_workgroups) =
      capped 256 (derived_value (maxComputeWorkgroupSizeX (limits zero_workgroups)) 1)"
    using C8_tuning_parameters [OF s t] by blast
  then have th: "optimizedNB_THREAD (parameters_of zero_workgroups) = 256"
    by (simp add: x capped_def derived_value_def)
  from s h w i th show ?thesis by blast
qed

text \<open>
  C9. The shader test changes \<open>reasons\<close> and \<open>errors\<close> only: every other field of the record
  is kept. When the test fails it appends \<open>SHADER_COMPILATION_FAILED\<close> to \<open>errors\<close> and a
  diagnostic with the exception's message to \<open>reasons\<close>; when it succeeds it appends an
  informational reason and leaves \<open>errors\<close> as they are. A run whose shader test fails
  still returns \<open>supported\<close>, the device, its features and its limits.
\<close>

theorem C9_shader_test_frame:
  "available (testComputeShader c) = available c \<and>
   supported (testComputeShader c) = supported c \<and>
   adapter (testComputeShader c) = adapter c \<and>
   device (testComputeShader c) = device c \<and>
   features (testComputeShader c) = features c \<and>
   limits (testComputeShader c) = limits c \<and>
   performanceInfo (testComputeShader c) = performanceInfo c \<and>
   (device c = Some d \<and> shader_error d = Some message \<longrightarrow>
      errors (testComputeShader c) = errors c @ [''SHADER_COMPILATION_FAILED''] \<and>
      reasons (testComputeShader c) =
        reasons c @ [''Compute shader test failed: '' @ message]) \<and>
   (device c = Some d \<and> shader_error d = None \<longrightarrow>
      errors (testComputeShader c) = errors c \<and>
      reasons (testComputeShader c) =
        reasons c @ [''Basic compute shader compilation successful'']) \<and>
   (isSecureContext env \<and> gpu env = Some (Resolved a) \<and> requestDevice a = Resolved d \<and>
    shader_error d = Some message \<longrightarrow>
      supported (runFullCheck env) \<and> device (runFullCheck env) = Some d \<and>
      features (runFullCheck env) = device_features d \<and>
      limits (runFullCheck env) = device_limits d \<and>
      errors (runFullCheck env) = [''SHADER_COMPILATION_FAILED''])"
proof -
  have frame: "available (testComputeShader c) = available c \<and>
      supported (testComputeShader c) = supported c \<and>
      adapter (testComputeShader c) = adapter c \<and>
      device (testComputeShader c) = device c \<and>
      features (testComputeShader c) = features c \<and>
      limits (testComputeShader c) = limits c \<and>
      performanceInfo (testComputeShader c) = performanceInfo c"
    by (simp add: testComputeShader_def split: option.splits)
  have failure: "errors (testComputeShader c) = errors c @ [''SHADER_COMPILATION_FAILED''] \<and>
      reasons (testComputeShader c) = reasons c @ [''Compute shader test failed: '' @ message]"
    if "device c = Some d" and "shader_error d = Some message"
    using that by (simp add: testComputeShader_def)
  have success: "errors (testComputeShader c) = errors c \<and>
      reasons (testComputeShader c) =
        reasons c @ [''Basic compute shader compilation successful'']"
    if "device c = Some d" and "shader_error d = None"
    using that by (simp add: testComputeShader_def)
  have run: "supported (runFullCheck env) \<and> device (runFullCheck env) = Some d \<and>
      features (runFullCheck env) = device_features d \<and>
      limits (runFullCheck env) = device_limits d \<and>
      errors (runFullCheck env) = [''SHADER_COMPILATION_FAILED'']"
    if "isSecureContext env" and "gpu env = Some (Resolved a)"
      and "requestDevice a = Resolved d" and "shader_error d = Some message"
    using runFullCheck_with_device [OF that(1-3)] that(4)
    by (simp add: testComputeShader_def reset_def)
  from frame failure success run show ?thesis by blast
qed

theorem C9_shader_test_frame_witness:
  "shader_error (example_device (Some ''invalid shader'')) = Some ''invalid shader'' \<and>
   supported (runFullCheck (example_env ''Mozilla/5.0 Firefox/141.0'' (Some ''invalid shader''))) \<and>
   device (runFullCheck (example_env ''Mozilla/5.0 Firefox/141.0'' (Some ''invalid shader''))) =
     Some (example_device (Some ''invalid shader'')) \<and>
   errors (runFullCheck (example_env ''Mozilla/5.0 Firefox/141.0'' (Some ''invalid shader''))) =
     [''SHADER_COMPILATION_FAILED''] \<and>
   errors (testComputeShader (reset\<lparr>device := Some (example_device (Some ''invalid shader''))\<rparr>)) =
     [''SHADER_COMPILATION_FAILED''] \<and>
   reasons (testComputeShader (reset\<lparr>device := Some (example_device (Some ''invalid shader''))\<rparr>)) =
     [''Compute shader test failed: invalid shader''] \<and>
   errors (testComputeShader (reset\<lparr>device := Some (example_device None)\<rparr>)) = [] \<and>
   reasons (testComputeShader (reset\<lparr>device := Some (example_device None)\<rparr>)) =
     [''Basic compute shader compilation successful'']"
proof -
  note failing = C9_shader_test_frame [where message = "''invalid shader''"
      and c = "reset\<lparr>device := Some (example_device (Some ''invalid shader''))\<rparr>"
      and d = "example_device (Some ''invalid shader'')"
      and a = "example_adapter (Some ''invalid shader'')"
      and env = "example_env ''Mozilla/5.0 Firefox/141.0'' (Some ''invalid shader'')"]
  note passing = C9_shader_test_frame [where message = "''invalid shader''"
      and c = "reset\<lparr>device := Some (example_device None)\<rparr>"
      and d = "example_device None" and a = "example_adapter None"
      and env = "example_env ''Mozilla/5.0 Firefox/141.0'' None"]
  have r: "errors reset = []" "reasons reset = []"
    by (simp_all add: reset_def)
  from failing passing show ?thesis
    by (simp add: example_env_facts r)
qed

text \<open>
  C10. For the tier outside the four keyed templates, unknown, \<open>getPerformanceDescription\<close>
  returns the fixed description of the unavailable tier, in which the supplied gain does
  not occur; for the tiers high, medium and low it returns the tier's template with the
  supplied gain interpolated.
\<close>

theorem C10_performance_description:
  "(t \<noteq> High \<and> t \<noteq> Medium \<and> t \<noteq> Low \<and> t \<noteq> Unavailable \<longrightarrow>
      getPerformanceDescription t g = ''GPU acceleration not available. Using CPU-only mode.'') \<and>
   getPerformanceDescription Unknown g = ''GPU acceleration not available. Using CPU-only mode.'' \<and>
   getPerformanceDescription Unavailable g =
     ''GPU acceleration not available. Using CPU-only mode.'' \<and>
   getPerformanceDescription High g =
     ''High-performance GPU detected. Estimated '' @ g @ ''x speedup over CPU.'' \<and>
   getPerformanceDescription Medium g =
     ''Mid-range GPU detected. Estimated '' @ g @ ''x speedup over CPU.'' \<and>
   getPerformanceDescription Low g =
     ''Low-end GPU detected. Estimated '' @ g @ ''x speedup over CPU.''"
  by (cases t)
    (simp_all add: getPerformanceDescription_def descriptions_def or_string_def
       unavailable_description_def)

theorem C10_performance_description_witness:
  "Unknown \<noteq> High \<and> Unknown \<noteq> Medium \<and> Unknown \<noteq> Low \<and> Unknown \<noteq> Unavailable \<and>
   getPerformanceDescription Unknown ''28'' =
     ''GPU acceleration not available. Using CPU-only mode.'' \<and>
   getPerformanceDescription High ''28'' =
     ''High-performance GPU detected. Estimated 28x speedup over CPU.''"
  using C10_performance_description [where t = Unknown and g = "''28''"] by simp

end
